theory Spec2Isabelle
  imports Main "HOL-Library.Word"
begin

section \<open>Python values\<close>

text \<open>
  The envelopes handled by \<^verbatim>\<open>client_conn.py\<close> are decoded JSON documents, so the values
  that flow through the dispatcher are \<^verbatim>\<open>None\<close>, booleans, integers, strings, lists and
  dictionaries. Floating point numbers are left out of the value space. A dictionary is
  an association list in insertion order; it denotes the mapping \<open>map_of\<close> of that list.
\<close>

datatype pyval =
    PNone
  | PBool bool
  | PInt int
  | PStr string
  | PList "pyval list"
  | PDict "(string \<times> pyval) list"

type_synonym pydict = "(string \<times> pyval) list"

type_synonym bytes = "8 word list"

text \<open>\<^verbatim>\<open>bool\<close> is a subclass of \<^verbatim>\<open>int\<close>: \<^verbatim>\<open>True == 1\<close> and \<^verbatim>\<open>False == 0\<close>.\<close>

fun py_num :: "pyval \<Rightarrow> int option" where
  "py_num (PBool b) = Some (if b then 1 else 0)"
| "py_num (PInt i) = Some i"
| "py_num _ = None"

text \<open>The keys of two dictionaries, and the Python operator \<^verbatim>\<open>==\<close>.\<close>

definition dict_keys :: "pydict \<Rightarrow> pydict \<Rightarrow> string list" where
  "dict_keys xs ys = map fst xs @ map fst ys"

lemma size_list_member: "z \<in> set xs \<Longrightarrow> size (z::pyval) < Suc (size_list size xs)"
  by (induction xs) auto

lemma size_dict_member:
  "map_of xs k = Some v \<Longrightarrow> size (v::pyval) < Suc (size_list (size_prod (\<lambda>_. 0) size) xs)"
  by (induction xs) (auto split: if_splits)

function py_eq :: "pyval \<Rightarrow> pyval \<Rightarrow> bool" where
  "py_eq PNone y = (y = PNone)"
| "py_eq (PBool b) y = (py_num y = Some (if b then 1 else 0))"
| "py_eq (PInt i) y = (py_num y = Some i)"
| "py_eq (PStr s) y = (y = PStr s)"
| "py_eq (PList xs) y = (case y of PList ys \<Rightarrow> list_all2 py_eq xs ys | _ \<Rightarrow> False)"
| "py_eq (PDict xs) y =
     (case y of
        PDict ys \<Rightarrow>
          list_all
            (\<lambda>k. case map_of xs k of
                    None \<Rightarrow> False
                  | Some v \<Rightarrow> (case map_of ys k of None \<Rightarrow> False | Some w \<Rightarrow> py_eq v w))
            (dict_keys xs ys)
      | _ \<Rightarrow> False)"
  by pat_completeness auto

termination
proof (relation "measure (\<lambda>(x, y). size x)", goal_cases)
  case 1
  show ?case by simp
next
  case (2 xs y ys z w)
  then show ?case by (simp add: size_list_member)
next
  case (3 xs y ys k v w)
  then show ?case by (simp add: size_dict_member)
qed

text \<open>Truth value testing, \<^verbatim>\<open>bool(v)\<close>: what \<^verbatim>\<open>if v:\<close> and \<^verbatim>\<open>not v\<close> look at.\<close>

fun truthy :: "pyval \<Rightarrow> bool" where
  "truthy PNone = False"
| "truthy (PBool b) = b"
| "truthy (PInt i) = (i \<noteq> 0)"
| "truthy (PStr s) = (s \<noteq> [])"
| "truthy (PList xs) = (xs \<noteq> [])"
| "truthy (PDict xs) = (xs \<noteq> [])"

section \<open>Exceptions\<close>

text \<open>
  \<open>Exception m\<close> is the plain \<^verbatim>\<open>Exception(m)\<close> the dispatcher raises itself. \<open>SocketError\<close>
  is an instance of \<^verbatim>\<open>socket.error\<close>, \<open>OSError\<close> an instance of \<^verbatim>\<open>OSError\<close> that is not
  created as a \<^verbatim>\<open>socket.error\<close>. Python 3 makes \<^verbatim>\<open>socket.error\<close> an alias of \<^verbatim>\<open>OSError\<close>,
  so there an \<^verbatim>\<open>except\<close> clause for either class catches both; under Python 2
  \<^verbatim>\<open>socket.error\<close> derives from \<^verbatim>\<open>IOError\<close> and the two classes are unrelated.
\<close>

datatype exn =
    Exception string
  | KeyError string
  | AttributeError string
  | TypeError
  | SocketError
  | OSError

definition is_socket_error :: "bool \<Rightarrow> exn \<Rightarrow> bool" where
  "is_socket_error python3 e = (e = SocketError \<or> (python3 \<and> e = OSError))"

definition is_OSError :: "bool \<Rightarrow> exn \<Rightarrow> bool" where
  "is_OSError python3 e = (e = OSError \<or> (python3 \<and> e = SocketError))"

section \<open>Dictionaries\<close>

text \<open>\<^verbatim>\<open>d.get(k)\<close>, \<^verbatim>\<open>d.get(k, default)\<close>, \<^verbatim>\<open>d[k]\<close> and \<^verbatim>\<open>d[k] = v\<close>.\<close>

definition dict_get :: "pydict \<Rightarrow> string \<Rightarrow> pyval" where
  "dict_get d k = (case map_of d k of None \<Rightarrow> PNone | Some v \<Rightarrow> v)"

definition dict_get_default :: "pydict \<Rightarrow> string \<Rightarrow> pyval \<Rightarrow> pyval" where
  "dict_get_default d k dflt = (case map_of d k of None \<Rightarrow> dflt | Some v \<Rightarrow> v)"

definition dict_item :: "pydict \<Rightarrow> string \<Rightarrow> exn + pyval" where
  "dict_item d k = (case map_of d k of None \<Rightarrow> Inl (KeyError k) | Some v \<Rightarrow> Inr v)"

definition dict_set :: "pydict \<Rightarrow> string \<Rightarrow> pyval \<Rightarrow> pydict" where
  "dict_set d k v =
     (if k \<in> set (map fst d) then map (\<lambda>kv. if fst kv = k then (k, v) else kv) d
      else d @ [(k, v)])"

section \<open>The environment of the connection\<close>

text \<open>
  What the code reads from outside \<^verbatim>\<open>client_conn.py\<close>. The constants \<^verbatim>\<open>JANUS_SERVER\<close>,
  \<^verbatim>\<open>JANUS_DATA_PORT\<close> and \<^verbatim>\<open>MAX_PAYLOAD_SIZE\<close> come from the module \<^verbatim>\<open>janus\<close>, and
  \<open>python3\<close> is \<^verbatim>\<open>__python_version__ == 3\<close>. \<open>encode\<close> is \<^verbatim>\<open>json.dumps(data, default=str)\<close>
  encoded as UTF-8 and compressed by \<^verbatim>\<open>zlib\<close>. \<open>socket_result\<close> is what
  \<^verbatim>\<open>socket.socket(AF_INET, SOCK_DGRAM)\<close> does when it is called (a new handle, or an
  exception), \<open>sendto_result\<close> what \<^verbatim>\<open>sock.sendto\<close> does (\<open>None\<close>: the datagram left).
\<close>

record env =
  python3 :: bool
  JANUS_SERVER :: string
  JANUS_DATA_PORT :: nat
  MAX_PAYLOAD_SIZE :: nat
  encode :: "pydict \<Rightarrow> bytes"
  socket_result :: "exn + nat"
  sendto_result :: "exn option"

text \<open>
  An attribute found by \<^verbatim>\<open>getattr\<close> is an operation, which takes the positional arguments
  and returns a value or raises, or some other value. The plugin has a dictionary
  \<^verbatim>\<open>linked_printer\<close> and named attributes (the capability groups), which have named
  attributes in turn.
\<close>

datatype attr = Callable "pyval list \<Rightarrow> exn + pyval" | Value pyval

record plugin =
  linked_printer :: pydict
  attrs :: "string \<rightharpoonup> (string \<rightharpoonup> attr)"

text \<open>
  The trace of a call: log lines, socket operations, the invocation of an operation, and
  the calls to the plugin's \<^verbatim>\<open>send_ws_msg_to_server\<close> and \<^verbatim>\<open>post_update_to_server\<close>, which
  are taken to return normally. \<open>DataChannelSend\<close> marks a call of \<^verbatim>\<open>DataChannelConn.send\<close>
  by \<^verbatim>\<open>send_msg_to_client\<close>. \<open>Sleep\<close> is \<^verbatim>\<open>time.sleep(0.2)\<close>.
\<close>

datatype event =
    LogError string
  | LogDebug string
  | SocketCreate
  | SendTo nat bytes string nat
  | Invoke pyval pyval "pyval list"
  | SendWsMsgToServer pydict
  | DataChannelSend bytes
  | Sleep
  | PostUpdateToServer

section \<open>DataChannelConn\<close>

record DataChannelConn =
  addr :: string
  port :: nat
  sock :: "nat option"

definition DataChannelConn_init :: "string \<Rightarrow> nat \<Rightarrow> DataChannelConn" where
  "DataChannelConn_init a p = \<lparr>addr = a, port = p, sock = None\<rparr>"

text \<open>Lines 97 to 101: open the socket when there is none.\<close>

definition open_sock :: "env \<Rightarrow> DataChannelConn \<Rightarrow> DataChannelConn \<times> event list \<times> exn option" where
  "open_sock ev dc =
     (case sock dc of
        Some h \<Rightarrow> (dc, [], None)
      | None \<Rightarrow>
          (case socket_result ev of
             Inr h \<Rightarrow> (dc\<lparr>sock := Some h\<rparr>, [SocketCreate], None)
           | Inl e \<Rightarrow>
               if is_OSError (python3 ev) e
               then (dc, [SocketCreate, LogError ''could not open udp socket''], None)
               else (dc, [SocketCreate], Some e)))"

text \<open>Lines 103 to 111: transmit on the socket when there is one.\<close>

definition transmit :: "env \<Rightarrow> DataChannelConn \<Rightarrow> bytes \<Rightarrow> DataChannelConn \<times> event list \<times> exn option" where
  "transmit ev dc payload =
     (case sock dc of
        None \<Rightarrow> (dc, [], None)
      | Some h \<Rightarrow>
          (case sendto_result ev of
             None \<Rightarrow> (dc, [SendTo h payload (addr dc) (port dc)], None)
           | Some e \<Rightarrow>
               if is_socket_error (python3 ev) e
               then (dc, [SendTo h payload (addr dc) (port dc),
                          LogError ''could not send to janus datachannel''], None)
               else if is_OSError (python3 ev) e
               then (dc\<lparr>sock := None\<rparr>, [SendTo h payload (addr dc) (port dc),
                          LogError ''udp socket might be closed''], None)
               else (dc, [SendTo h payload (addr dc) (port dc)], Some e)))"

definition send :: "env \<Rightarrow> DataChannelConn \<Rightarrow> bytes \<Rightarrow> DataChannelConn \<times> event list \<times> exn option" where
  "send ev dc payload =
     (if length payload > MAX_PAYLOAD_SIZE ev
      then (dc, [LogError ''datachannel payload too big''], None)
      else
        (case open_sock ev dc of
           (dc1, evs1, Some e) \<Rightarrow> (dc1, evs1, Some e)
         | (dc1, evs1, None) \<Rightarrow>
             (case transmit ev dc1 payload of
                (dc2, evs2, r) \<Rightarrow> (dc2, evs1 @ evs2, r))))"

section \<open>ClientConn\<close>

text \<open>
  \<open>seen_refs\<close> is the \<^verbatim>\<open>deque(maxlen=25)\<close> of \<^verbatim>\<open>__init__\<close>, oldest element first.
  \<^verbatim>\<open>append\<close> on a bounded deque adds on the right and, when that exceeds \<^verbatim>\<open>maxlen\<close>, drops
  the leftmost element. \<^verbatim>\<open>x in d\<close> compares \<open>x\<close> with each element by \<^verbatim>\<open>==\<close>.
\<close>

record ClientConn =
  data_channel_conn :: DataChannelConn
  seen_refs :: "pyval list"

definition seen_refs_maxlen :: nat where
  "seen_refs_maxlen = 25"

definition ClientConn_init :: "env \<Rightarrow> ClientConn" where
  "ClientConn_init ev =
     \<lparr>data_channel_conn = DataChannelConn_init (JANUS_SERVER ev) (JANUS_DATA_PORT ev),
      seen_refs = []\<rparr>"

definition deque_append :: "nat \<Rightarrow> pyval list \<Rightarrow> pyval \<Rightarrow> pyval list" where
  "deque_append maxlen xs x =
     (let ys = xs @ [x] in if length ys > maxlen then tl ys else ys)"

definition py_in :: "pyval \<Rightarrow> pyval list \<Rightarrow> bool" where
  "py_in x xs = list_ex (\<lambda>e. py_eq e x) xs"

text \<open>
  Lines 58 to 77. The second element of the result is the trace of the call, the third
  the exception it raises, if any.
\<close>

definition send_msg_to_client ::
  "env \<Rightarrow> plugin \<Rightarrow> ClientConn \<Rightarrow> pydict \<Rightarrow> ClientConn \<times> event list \<times> exn option" where
  "send_msg_to_client ev p c data =
     (if \<not> truthy (dict_get (linked_printer p) ''id'') then (c, [], None)
      else
        (case dict_item (linked_printer p) ''id'' of
           Inl e \<Rightarrow> (c, [], Some e)
         | Inr pid \<Rightarrow>
             (let data1 = dict_set data ''printer_id'' pid;
                  compressed_data = encode ev data1
              in case send ev (data_channel_conn c) compressed_data of
                   (dc, evs, r) \<Rightarrow>
                     (c\<lparr>data_channel_conn := dc\<rparr>, DataChannelSend compressed_data # evs, r))))"

text \<open>Lines 26 to 29: the exception of the identity check, if it raises.\<close>

definition check_printer_id :: "plugin \<Rightarrow> pydict \<Rightarrow> exn option" where
  "check_printer_id p msg =
     (if truthy (dict_get msg ''printer_id'') then
        (case dict_item msg ''printer_id'' of
           Inl e \<Rightarrow> Some e
         | Inr mid \<Rightarrow>
             (case dict_item (linked_printer p) ''id'' of
                Inl e \<Rightarrow> Some e
              | Inr lid \<Rightarrow>
                  if \<not> py_eq mid lid then Some (Exception ''printer_id mismatch'') else None))
      else None)"

text \<open>
  \<^verbatim>\<open>getattr(obj, name)\<close> and \<^verbatim>\<open>getattr(obj, name, None)\<close> on an object with the attributes
  \<open>as\<close>: the name has to be a string.
\<close>

definition py_getattr :: "(string \<rightharpoonup> 'a) \<Rightarrow> pyval \<Rightarrow> exn + 'a" where
  "py_getattr as name =
     (case name of
        PStr s \<Rightarrow> (case as s of None \<Rightarrow> Inl (AttributeError s) | Some a \<Rightarrow> Inr a)
      | _ \<Rightarrow> Inl TypeError)"

definition py_getattr_default :: "(string \<rightharpoonup> 'a) \<Rightarrow> pyval \<Rightarrow> exn + 'a option" where
  "py_getattr_default as name =
     (case name of
        PStr s \<Rightarrow> Inr (as s)
      | _ \<Rightarrow> Inl TypeError)"

text \<open>Lines 31 and 32: \<open>target\<close>, then \<open>func\<close>.\<close>

definition resolve :: "plugin \<Rightarrow> pydict \<Rightarrow> exn + attr option" where
  "resolve p msg =
     (case py_getattr (attrs p) (dict_get msg ''target'') of
        Inl e \<Rightarrow> Inl e
      | Inr target \<Rightarrow>
          (case dict_item msg ''func'' of
             Inl e \<Rightarrow> Inl e
           | Inr name \<Rightarrow> py_getattr_default target name))"

text \<open>\<^verbatim>\<open>not func\<close> on line 33: an operation is true, \<^verbatim>\<open>None\<close> is false.\<close>

fun attr_truthy :: "attr option \<Rightarrow> bool" where
  "attr_truthy None = False"
| "attr_truthy (Some (Callable h)) = True"
| "attr_truthy (Some (Value v)) = truthy v"

text \<open>
  The argument unpacking \<^verbatim>\<open>*args\<close> of line 47: a list gives its elements, a string its
  characters, a dictionary its keys, anything else is not iterable.
\<close>

fun unpack :: "pyval \<Rightarrow> exn + pyval list" where
  "unpack (PList xs) = Inr xs"
| "unpack (PStr s) = Inr (map (\<lambda>ch. PStr [ch]) s)"
| "unpack (PDict d) = Inr (map PStr (remdups (map fst d)))"
| "unpack _ = Inl TypeError"

text \<open>
  Line 47: the call \<^verbatim>\<open>func(*args)\<close>. Its trace has an \<open>Invoke\<close> when the operation is
  entered.
\<close>

definition call_func :: "pydict \<Rightarrow> attr option \<Rightarrow> event list \<times> (exn + pyval)" where
  "call_func msg func =
     (case unpack (dict_get_default msg ''args'' (PList [])) of
        Inl e \<Rightarrow> ([], Inl e)
      | Inr args \<Rightarrow>
          (case func of
             Some (Callable h) \<Rightarrow>
               ([Invoke (dict_get msg ''target'') (dict_get msg ''func'') args], h args)
           | _ \<Rightarrow> ([], Inl TypeError)))"

text \<open>Lines 49 to 56: the replies, then the status refresh.\<close>

definition reply ::
  "env \<Rightarrow> plugin \<Rightarrow> ClientConn \<Rightarrow> pyval \<Rightarrow> pyval \<Rightarrow> ClientConn \<times> event list \<times> exn option" where
  "reply ev p c ack_ref ret =
     (if truthy ack_ref then
        (case send_msg_to_client ev p c
                [(''ref'', ack_ref), (''ret'', ret), (''_webrtc'', PBool True)] of
           (c1, evs, Some e) \<Rightarrow>
             (c1, SendWsMsgToServer [(''passthru'', PDict [(''ref'', ack_ref), (''ret'', ret)])]
                    # evs, Some e)
         | (c1, evs, None) \<Rightarrow>
             (c1, SendWsMsgToServer [(''passthru'', PDict [(''ref'', ack_ref), (''ret'', ret)])]
                    # evs @ [Sleep, PostUpdateToServer], None))
      else (c, [Sleep, PostUpdateToServer], None))"

text \<open>Lines 25 to 56.\<close>

definition on_message_to_plugin ::
  "env \<Rightarrow> plugin \<Rightarrow> ClientConn \<Rightarrow> pydict \<Rightarrow> ClientConn \<times> event list \<times> exn option" where
  "on_message_to_plugin ev p c msg =
     (case check_printer_id p msg of
        Some e \<Rightarrow> (c, [], Some e)
      | None \<Rightarrow>
          (case resolve p msg of
             Inl e \<Rightarrow> (c, [], Some e)
           | Inr func \<Rightarrow>
               if \<not> attr_truthy func then (c, [], None)
               else
                 (let ack_ref = dict_get msg ''ref'' in
                  if ack_ref \<noteq> PNone \<and> py_in ack_ref (seen_refs c)
                  then (c, [LogDebug ''Got duplicate ref, ignoring msg''], None)
                  else
                    (let c1 = (if ack_ref \<noteq> PNone
                               then c\<lparr>seen_refs :=
                                        deque_append seen_refs_maxlen (seen_refs c) ack_ref\<rparr>
                               else c)
                     in case call_func msg func of
                          (evs, Inl e) \<Rightarrow> (c1, evs, Some e)
                        | (evs, Inr ret) \<Rightarrow>
                            (case reply ev p c1 ack_ref ret of
                               (c2, evs2, r) \<Rightarrow> (c2, evs @ evs2, r))))))"

text \<open>
  Envelopes handled one after the other, each with the plugin and environment of its
  arrival. An exception ends the handling of its envelope only.
\<close>

fun deliver :: "ClientConn \<Rightarrow> (env \<times> plugin \<times> pydict) list \<Rightarrow> ClientConn" where
  "deliver c [] = c"
| "deliver c ((ev, p, msg) # rest) = deliver (fst (on_message_to_plugin ev p c msg)) rest"

text \<open>What a trace holds: invocations, and replies on either channel.\<close>

fun is_invoke :: "event \<Rightarrow> bool" where
  "is_invoke (Invoke t f args) = True"
| "is_invoke _ = False"

fun is_ws_reply :: "event \<Rightarrow> bool" where
  "is_ws_reply (SendWsMsgToServer m) = True"
| "is_ws_reply _ = False"

fun is_dc_reply :: "event \<Rightarrow> bool" where
  "is_dc_reply (DataChannelSend b) = True"
| "is_dc_reply _ = False"

text \<open>
  An envelope passes the gates before the deduplication when the identity check does not
  raise and \<^verbatim>\<open>func\<close> resolves to something true (lines 26 to 34).
\<close>

definition passes_gates :: "plugin \<Rightarrow> pydict \<Rightarrow> bool" where
  "passes_gates p msg =
     (check_printer_id p msg = None
      \<and> (case resolve p msg of Inl e \<Rightarrow> False | Inr func \<Rightarrow> attr_truthy func))"

text \<open>
  Refs that are pairwise different for \<^verbatim>\<open>==\<close>. The ref of an arrival, and an arrival
  that passes the gates with a ref.
\<close>

fun py_distinct :: "pyval list \<Rightarrow> bool" where
  "py_distinct [] = True"
| "py_distinct (x # xs) = (\<not> py_in x xs \<and> py_distinct xs)"

definition call_ref :: "env \<times> plugin \<times> pydict \<Rightarrow> pyval" where
  "call_ref call = dict_get (snd (snd call)) ''ref''"

definition call_passes :: "env \<times> plugin \<times> pydict \<Rightarrow> bool" where
  "call_passes call = (passes_gates (fst (snd call)) (snd (snd call)) \<and> call_ref call \<noteq> PNone)"

section \<open>A concrete connection\<close>

text \<open>
  The scenario of the specification: a printer linked as \<^verbatim>\<open>p1\<close>, one capability group
  \<^verbatim>\<open>printer\<close> with the operation \<^verbatim>\<open>set_temperature\<close>, which here returns its arguments,
  and the envelope that sets the temperature to 200 with the ref \<^verbatim>\<open>abc123\<close>.
\<close>

definition example_env :: env where
  "example_env =
     \<lparr>python3 = True, JANUS_SERVER = ''127.0.0.1'', JANUS_DATA_PORT = 8009,
      MAX_PAYLOAD_SIZE = 1500, encode = (\<lambda>d. replicate (length d) 0),
      socket_result = Inr 3, sendto_result = None\<rparr>"

definition set_temperature :: "pyval list \<Rightarrow> exn + pyval" where
  "set_temperature args = Inr (PList args)"

definition example_plugin :: plugin where
  "example_plugin =
     \<lparr>linked_printer = [(''id'', PStr ''p1'')],
      attrs = [''printer'' \<mapsto> [''set_temperature'' \<mapsto> Callable set_temperature]]\<rparr>"

definition example_msg :: pydict where
  "example_msg =
     [(''target'', PStr ''printer''), (''func'', PStr ''set_temperature''),
      (''args'', PList [PInt 200]), (''ref'', PStr ''abc123'')]"

definition example_conn :: ClientConn where
  "example_conn = ClientConn_init example_env"

text \<open>The connection and the trace after that envelope.\<close>

definition example_conn_after :: ClientConn where
  "example_conn_after =
     \<lparr>data_channel_conn = \<lparr>addr = ''127.0.0.1'', port = 8009, sock = Some 3\<rparr>,
      seen_refs = [PStr ''abc123'']\<rparr>"

definition example_trace :: "event list" where
  "example_trace =
     [Invoke (PStr ''printer'') (PStr ''set_temperature'') [PInt 200],
      SendWsMsgToServer
        [(''passthru'', PDict [(''ref'', PStr ''abc123''), (''ret'', PList [PInt 200])])],
      DataChannelSend [0, 0, 0, 0], SocketCreate, SendTo 3 [0, 0, 0, 0] ''127.0.0.1'' 8009,
      Sleep, PostUpdateToServer]"

text \<open>Envelopes with a ref that is there and false, and with no ref.\<close>

definition zero_ref_msg :: pydict where
  "zero_ref_msg =
     [(''target'', PStr ''printer''), (''func'', PStr ''set_temperature''),
      (''args'', PList [PInt 200]), (''ref'', PInt 0)]"

definition no_ref_msg :: pydict where
  "no_ref_msg =
     [(''target'', PStr ''printer''), (''func'', PStr ''set_temperature''),
      (''args'', PList [PInt 200])]"

text \<open>The same envelope for a capability group the plugin does not have.\<close>

definition unknown_target_msg :: pydict where
  "unknown_target_msg =
     [(''target'', PStr ''camera''), (''func'', PStr ''set_temperature''),
      (''args'', PList [PInt 200]), (''ref'', PStr ''abc123'')]"

text \<open>
  The envelope of the scenario with a \<^verbatim>\<open>printer_id\<close>: another printer's, the linked
  printer's, and 0. A plugin that is not linked, and one whose linked printer has the id 0.
\<close>

definition other_printer_msg :: pydict where
  "other_printer_msg = (''printer_id'', PStr ''other'') # example_msg"

definition same_printer_msg :: pydict where
  "same_printer_msg = (''printer_id'', PStr ''p1'') # example_msg"

definition zero_printer_id_msg :: pydict where
  "zero_printer_id_msg = (''printer_id'', PInt 0) # example_msg"

definition unlinked_plugin :: plugin where
  "unlinked_plugin = example_plugin\<lparr>linked_printer := []\<rparr>"

definition zero_id_plugin :: plugin where
  "zero_id_plugin = example_plugin\<lparr>linked_printer := [(''id'', PInt 0)]\<rparr>"

text \<open>
  Twenty-six envelopes of the scenario with the refs 1 to 26, in the order of their
  arrival.
\<close>

definition numbered_msg :: "int \<Rightarrow> pydict" where
  "numbered_msg i =
     [(''target'', PStr ''printer''), (''func'', PStr ''set_temperature''),
      (''args'', PList [PInt 200]), (''ref'', PInt i)]"

definition numbered_calls :: "(env \<times> plugin \<times> pydict) list" where
  "numbered_calls = map (\<lambda>i. (example_env, example_plugin, numbered_msg i)) [1..26]"

section \<open>Equality of values\<close>

lemma py_eq_refl: "py_eq x x"
proof (induction x)
  case (PList xs)
  then show ?case by (simp add: list_all2_same)
next
  case (PDict xs)
  have "case map_of xs k of None \<Rightarrow> False | Some v \<Rightarrow> py_eq v v" if "k \<in> fst ` set xs" for k
  proof (cases "map_of xs k")
    case None
    with that show ?thesis by (simp add: map_of_eq_None_iff)
  next
    case (Some v)
    then have "(k, v) \<in> set xs" by (rule map_of_SomeD)
    then have "py_eq v v" using PDict by force
    with Some show ?thesis by simp
  qed
  then have "\<forall>k \<in> set (dict_keys xs xs).
      case map_of xs k of None \<Rightarrow> False | Some v \<Rightarrow> py_eq v v"
    by (simp add: dict_keys_def)
  then have "\<forall>k \<in> set (dict_keys xs xs). case map_of xs k of None \<Rightarrow> False
      | Some v \<Rightarrow> (case map_of xs k of None \<Rightarrow> False | Some w \<Rightarrow> py_eq v w)"
    by (auto split: option.splits)
  then show ?case by (simp add: list_all_iff)
qed simp_all

lemma py_num_eq: "py_num y = Some i \<Longrightarrow> py_eq y z = (py_num z = Some i)"
  by (cases y) (auto split: if_splits)

lemma py_eq_sym: "py_eq x y \<Longrightarrow> py_eq y x"
proof (induction x arbitrary: y)
  case PNone
  then show ?case by simp
next
  case (PBool b)
  then show ?case by (simp add: py_num_eq)
next
  case (PInt i)
  then show ?case by (simp add: py_num_eq)
next
  case (PStr s)
  then show ?case by simp
next
  case (PList xs)
  then obtain ys where y: "y = PList ys" and a: "list_all2 py_eq xs ys"
    by (cases y) auto
  have "list_all2 (\<lambda>a b. py_eq b a) xs ys"
    using a by (rule list.rel_mono_strong) (use PList.IH in blast)
  then have "list_all2 py_eq ys xs" by (simp add: list_all2_conv_all_nth)
  with y show ?case by simp
next
  case (PDict xs)
  then obtain ys where y: "y = PDict ys"
    and a: "\<forall>k \<in> set (dict_keys xs ys). case map_of xs k of None \<Rightarrow> False
              | Some v \<Rightarrow> (case map_of ys k of None \<Rightarrow> False | Some w \<Rightarrow> py_eq v w)"
    by (cases y) (auto simp: list_all_iff)
  have "case map_of ys k of None \<Rightarrow> False
          | Some w \<Rightarrow> (case map_of xs k of None \<Rightarrow> False | Some v \<Rightarrow> py_eq w v)"
    if "k \<in> set (dict_keys ys xs)" for k
  proof -
    from that have "k \<in> set (dict_keys xs ys)" by (auto simp: dict_keys_def)
    with a obtain v w where v: "map_of xs k = Some v" and w: "map_of ys k = Some w"
      and e: "py_eq v w"
      by (fastforce split: option.splits)
    from v have "(k, v) \<in> set xs" by (rule map_of_SomeD)
    then have "v \<in> Basic_BNFs.snds (k, v)" "(k, v) \<in> set xs" by auto
    then have "py_eq w v" using PDict.IH e by blast
    with v w show ?thesis by simp
  qed
  with y show ?case by (simp add: list_all_iff)
qed

section \<open>The ledger\<close>

lemma py_in_iff: "py_in x xs = (\<exists>e \<in> set xs. py_eq e x)"
  by (simp add: py_in_def list_ex_iff)

lemma py_in_deque_append_self: "0 < n \<Longrightarrow> py_in x (deque_append n xs x)"
  by (cases xs) (auto simp: py_in_iff deque_append_def Let_def py_eq_refl)

lemma py_in_recorded: "py_in x (deque_append seen_refs_maxlen xs x)"
  by (simp add: py_in_deque_append_self seen_refs_maxlen_def)

section \<open>Traces\<close>

lemma send_trace:
  "send ev dc b = (dc', evs, r) \<Longrightarrow>
   filter is_invoke evs = [] \<and> filter is_ws_reply evs = [] \<and> filter is_dc_reply evs = []"
  by (auto simp: send_def open_sock_def transmit_def split: if_splits option.splits sum.splits)

lemma send_msg_to_client_trace:
  assumes "send_msg_to_client ev p c data = (c', evs, r)"
  shows "seen_refs c' = seen_refs c \<and> filter is_invoke evs = [] \<and> filter is_ws_reply evs = []
         \<and> length (filter is_dc_reply evs) \<le> 1"
proof (cases "truthy (dict_get (linked_printer p) ''id'')")
  case False
  with assms show ?thesis by (simp add: send_msg_to_client_def)
next
  case True
  show ?thesis
  proof (cases "dict_item (linked_printer p) ''id''")
    case (Inl e)
    with True assms show ?thesis by (auto simp: send_msg_to_client_def)
  next
    case (Inr pid)
    obtain dc evs1 r1 where
      s: "send ev (data_channel_conn c) (encode ev (dict_set data ''printer_id'' pid)) = (dc, evs1, r1)"
      by (metis prod_cases3)
    with True Inr assms have "c' = c\<lparr>data_channel_conn := dc\<rparr>"
      and "evs = DataChannelSend (encode ev (dict_set data ''printer_id'' pid)) # evs1"
      by (auto simp: send_msg_to_client_def Let_def)
    with send_trace [OF s] show ?thesis by simp
  qed
qed

lemma reply_trace:
  assumes "reply ev p c ack_ref ret = (c', evs, r)"
  shows "seen_refs c' = seen_refs c \<and> filter is_invoke evs = []
         \<and> length (filter is_ws_reply evs) \<le> 1 \<and> length (filter is_dc_reply evs) \<le> 1"
proof (cases "truthy ack_ref")
  case False
  with assms show ?thesis by (auto simp: reply_def)
next
  case True
  obtain c1 evs1 r1 where
    s: "send_msg_to_client ev p c
          [(''ref'', ack_ref), (''ret'', ret), (''_webrtc'', PBool True)] = (c1, evs1, r1)"
    by (metis prod_cases3)
  from send_msg_to_client_trace [OF s] s True assms show ?thesis
    by (cases r1) (auto simp: reply_def)
qed

lemma call_func_trace:
  "call_func msg func = (evs, x) \<Longrightarrow> length (filter is_invoke evs) \<le> 1
     \<and> filter is_ws_reply evs = [] \<and> filter is_dc_reply evs = []"
  by (auto simp: call_func_def split: sum.splits option.splits attr.splits)

section \<open>The dispatcher, gate by gate\<close>

lemma blocked_at_gates:
  "\<not> passes_gates p msg \<Longrightarrow> \<exists>r. on_message_to_plugin ev p c msg = (c, [], r)"
  by (auto simp: passes_gates_def on_message_to_plugin_def split: option.splits sum.splits)

lemma duplicate_dropped:
  assumes "passes_gates p msg" and "dict_get msg ''ref'' \<noteq> PNone"
    and "py_in (dict_get msg ''ref'') (seen_refs c)"
  shows "on_message_to_plugin ev p c msg = (c, [LogDebug ''Got duplicate ref, ignoring msg''], None)"
  using assms
  by (auto simp: passes_gates_def on_message_to_plugin_def split: option.splits sum.splits)

lemma fresh_handled:
  assumes "passes_gates p msg"
    and "dict_get msg ''ref'' = PNone \<or> \<not> py_in (dict_get msg ''ref'') (seen_refs c)"
    and "on_message_to_plugin ev p c msg = (c', evs, r)"
  shows "seen_refs c' =
           (if dict_get msg ''ref'' \<noteq> PNone
            then deque_append seen_refs_maxlen (seen_refs c) (dict_get msg ''ref'')
            else seen_refs c)
         \<and> length (filter is_invoke evs) \<le> 1
         \<and> length (filter is_ws_reply evs) \<le> 1
         \<and> length (filter is_dc_reply evs) \<le> 1"
proof -
  let ?ref = "dict_get msg ''ref''"
  let ?c1 = "if ?ref \<noteq> PNone
             then c\<lparr>seen_refs := deque_append seen_refs_maxlen (seen_refs c) ?ref\<rparr> else c"
  from assms(1) obtain func where f: "resolve p msg = Inr func" "attr_truthy func"
    and chk: "check_printer_id p msg = None"
    by (auto simp: passes_gates_def split: sum.splits)
  obtain evs1 x where cf: "call_func msg func = (evs1, x)" by (metis prod.exhaust)
  have om: "on_message_to_plugin ev p c msg =
      (case x of Inl e \<Rightarrow> (?c1, evs1, Some e)
       | Inr ret \<Rightarrow> (case reply ev p ?c1 ?ref ret of (c2, evs2, r) \<Rightarrow> (c2, evs1 @ evs2, r)))"
    using f chk cf assms(2) by (auto simp: on_message_to_plugin_def Let_def)
  note t1 = call_func_trace [OF cf]
  show ?thesis
  proof (cases x)
    case (Inl e)
    with om assms(3) t1 show ?thesis by auto
  next
    case (Inr ret)
    obtain c2 evs2 r2 where rp: "reply ev p ?c1 ?ref ret = (c2, evs2, r2)" by (metis prod_cases3)
    from om Inr rp assms(3) have "c' = c2" "evs = evs1 @ evs2" by auto
    with reply_trace [OF rp] t1 show ?thesis by auto
  qed
qed

section \<open>The transport\<close>

text \<open>
  C7. A payload longer than \<^verbatim>\<open>MAX_PAYLOAD_SIZE\<close> makes \<^verbatim>\<open>send\<close> log one error and return:
  the connection, with its socket handle, is what it was, no socket is created or used,
  and nothing is raised.
\<close>

theorem send_oversized_noop:
  "length payload > MAX_PAYLOAD_SIZE ev \<Longrightarrow>
   send ev dc payload = (dc, [LogError ''datachannel payload too big''], None)"
  by (simp add: send_def)

theorem send_oversized_noop_witness:
  "length [1, 2, 3 :: 8 word] > MAX_PAYLOAD_SIZE (example_env\<lparr>MAX_PAYLOAD_SIZE := 2\<rparr>) \<and>
   send (example_env\<lparr>MAX_PAYLOAD_SIZE := 2\<rparr>) (DataChannelConn_init ''127.0.0.1'' 8009) [1, 2, 3] =
     (DataChannelConn_init ''127.0.0.1'' 8009, [LogError ''datachannel payload too big''], None)"
  using send_oversized_noop
    [of "example_env\<lparr>MAX_PAYLOAD_SIZE := 2\<rparr>" "[1, 2, 3]" "DataChannelConn_init ''127.0.0.1'' 8009"]
  by simp

text \<open>
  C4. The claim: when the transmission fails, the socket handle is discarded and the next
  \<^verbatim>\<open>send\<close> creates a fresh one. The code, when \<^verbatim>\<open>sendto\<close> raises an instance of
  \<^verbatim>\<open>socket.error\<close> (under Python 3 that is every \<^verbatim>\<open>OSError\<close>): the first \<^verbatim>\<open>except\<close> clause
  logs, the handle stays, and the next \<^verbatim>\<open>send\<close> uses it again without creating a socket.
  Nothing is raised and the payload is dropped, as the claim says.
\<close>

theorem send_failure_keeps_sock:
  assumes "length payload \<le> MAX_PAYLOAD_SIZE ev"
    and "sock dc = Some h"
    and "sendto_result ev = Some e"
    and "is_socket_error (python3 ev) e"
  shows "send ev dc payload =
           (dc, [SendTo h payload (addr dc) (port dc),
                 LogError ''could not send to janus datachannel''], None)
         \<and> sock (fst (send ev dc payload)) = Some h
         \<and> SocketCreate \<notin> set (fst (snd (send ev2 (fst (send ev dc payload)) payload2)))"
proof -
  have 1: "send ev dc payload =
           (dc, [SendTo h payload (addr dc) (port dc),
                 LogError ''could not send to janus datachannel''], None)"
    using assms by (simp add: send_def open_sock_def transmit_def)
  have 2: "SocketCreate \<notin> set (fst (snd (send ev2 dc payload2)))"
    using assms(2) by (simp add: send_def open_sock_def transmit_def split: option.splits)
  from 1 2 assms(2) show ?thesis by simp
qed

theorem send_failure_keeps_sock_witness:
  "send (example_env\<lparr>sendto_result := Some SocketError\<rparr>)
        ((data_channel_conn example_conn)\<lparr>sock := Some 3\<rparr>) [1] =
     ((data_channel_conn example_conn)\<lparr>sock := Some 3\<rparr>,
      [SendTo 3 [1] ''127.0.0.1'' 8009, LogError ''could not send to janus datachannel''], None)
   \<and> send example_env
        (fst (send (example_env\<lparr>sendto_result := Some SocketError\<rparr>)
                ((data_channel_conn example_conn)\<lparr>sock := Some 3\<rparr>) [1])) [2] =
     ((data_channel_conn example_conn)\<lparr>sock := Some 3\<rparr>, [SendTo 3 [2] ''127.0.0.1'' 8009], None)"
proof -
  let ?ev = "example_env\<lparr>sendto_result := Some SocketError\<rparr>"
  let ?dc = "(data_channel_conn example_conn)\<lparr>sock := Some 3\<rparr>"
  have "length [1 :: 8 word] \<le> MAX_PAYLOAD_SIZE ?ev" by (simp add: example_env_def)
  moreover have "sock ?dc = Some 3" by simp
  moreover have "sendto_result ?ev = Some SocketError" by simp
  moreover have "is_socket_error (python3 ?ev) SocketError" by (simp add: is_socket_error_def)
  ultimately have a: "send ?ev ?dc [1] =
           (?dc, [SendTo 3 [1] (addr ?dc) (port ?dc),
                 LogError ''could not send to janus datachannel''], None)"
    using send_failure_keeps_sock [of "[1]" ?ev ?dc 3 SocketError] by blast
  have b: "send example_env ?dc [2] = (?dc, [SendTo 3 [2] ''127.0.0.1'' 8009], None)"
    by (simp add: send_def open_sock_def transmit_def example_env_def example_conn_def
        ClientConn_init_def DataChannelConn_init_def)
  from a b show ?thesis
    by (simp add: example_conn_def example_env_def ClientConn_init_def DataChannelConn_init_def)
qed

section \<open>The dispatcher: resolution\<close>

text \<open>An envelope whose \<^verbatim>\<open>func\<close> names no attribute of the target is dropped in silence.\<close>

lemma unknown_func_dropped:
  assumes "check_printer_id p msg = None"
    and "dict_get msg ''target'' = PStr t" and "attrs p t = Some target"
    and "dict_item msg ''func'' = Inr (PStr f)" and "target f = None"
  shows "on_message_to_plugin ev p c msg = (c, [], None)"
  using assms
  by (simp add: on_message_to_plugin_def resolve_def py_getattr_def py_getattr_default_def)

text \<open>
  C3. The claim: an envelope whose target or func resolves to nothing is dropped, no
  error is raised. The code, for a target the plugin does not have: \<^verbatim>\<open>getattr\<close> on line 31
  has no default, so the dispatcher raises \<^verbatim>\<open>AttributeError\<close>. Nothing is sent and
  nothing recorded.
\<close>

theorem unknown_target_raises:
  assumes "check_printer_id p msg = None"
    and "dict_get msg ''target'' = PStr t"
    and "attrs p t = None"
  shows "on_message_to_plugin ev p c msg = (c, [], Some (AttributeError t))"
  using assms by (simp add: on_message_to_plugin_def resolve_def py_getattr_def)

theorem unknown_target_raises_witness:
  "check_printer_id example_plugin unknown_target_msg = None
   \<and> dict_get unknown_target_msg ''target'' = PStr ''camera''
   \<and> attrs example_plugin ''camera'' = None
   \<and> on_message_to_plugin example_env example_plugin example_conn unknown_target_msg =
       (example_conn, [], Some (AttributeError ''camera''))"
proof -
  have 1: "check_printer_id example_plugin unknown_target_msg = None"
    by (simp add: check_printer_id_def unknown_target_msg_def dict_get_def)
  have 2: "dict_get unknown_target_msg ''target'' = PStr ''camera''"
    by (simp add: unknown_target_msg_def dict_get_def)
  have 3: "attrs example_plugin ''camera'' = None"
    by (simp add: example_plugin_def)
  from 1 2 3 unknown_target_raises [OF 1 2 3, of example_env example_conn] show ?thesis
    by simp
qed

section \<open>The dispatcher: deduplication\<close>

text \<open>An envelope that reaches the call of an operation enters it exactly once.\<close>

lemma invoked_once:
  assumes "check_printer_id p msg = None"
    and "resolve p msg = Inr (Some (Callable h))"
    and "unpack (dict_get_default msg ''args'' (PList [])) = Inr args"
    and "dict_get msg ''ref'' = PNone \<or> \<not> py_in (dict_get msg ''ref'') (seen_refs c)"
    and "on_message_to_plugin ev p c msg = (c', evs, r)"
  shows "filter is_invoke evs = [Invoke (dict_get msg ''target'') (dict_get msg ''func'') args]"
proof -
  let ?ref = "dict_get msg ''ref''"
  let ?c1 = "if ?ref \<noteq> PNone
             then c\<lparr>seen_refs := deque_append seen_refs_maxlen (seen_refs c) ?ref\<rparr> else c"
  let ?inv = "Invoke (dict_get msg ''target'') (dict_get msg ''func'') args"
  have cf: "call_func msg (Some (Callable h)) = ([?inv], h args)"
    using assms(3) by (simp add: call_func_def)
  have om: "on_message_to_plugin ev p c msg =
      (case h args of Inl e \<Rightarrow> (?c1, [?inv], Some e)
       | Inr ret \<Rightarrow> (case reply ev p ?c1 ?ref ret of (c2, evs2, r) \<Rightarrow> (c2, ?inv # evs2, r)))"
    using assms(1,2,4) cf by (auto simp: on_message_to_plugin_def Let_def)
  show ?thesis
  proof (cases "h args")
    case (Inl e)
    with om assms(5) show ?thesis by auto
  next
    case (Inr ret)
    obtain c2 evs2 r2 where rp: "reply ev p ?c1 ?ref ret = (c2, evs2, r2)" by (metis prod_cases3)
    from om Inr rp assms(5) have "evs = ?inv # evs2" by auto
    with reply_trace [OF rp] show ?thesis by simp
  qed
qed

text \<open>The scenario of the specification, evaluated.\<close>

lemmas example_defs =
  example_env_def example_plugin_def example_conn_def ClientConn_init_def
  DataChannelConn_init_def set_temperature_def

lemmas dispatch_defs =
  on_message_to_plugin_def check_printer_id_def resolve_def dict_get_def dict_item_def
  py_getattr_def py_getattr_default_def py_in_def call_func_def dict_get_default_def
  reply_def send_msg_to_client_def dict_set_def send_def open_sock_def transmit_def
  deque_append_def seen_refs_maxlen_def Let_def

lemma example_first:
  "on_message_to_plugin example_env example_plugin example_conn example_msg =
     (example_conn_after, example_trace, None)"
  by (simp add: dispatch_defs example_defs example_msg_def example_conn_after_def
      example_trace_def)

lemma example_second:
  "on_message_to_plugin example_env example_plugin example_conn_after example_msg =
     (example_conn_after, [LogDebug ''Got duplicate ref, ignoring msg''], None)"
  by (simp add: dispatch_defs example_defs example_msg_def example_conn_after_def)

lemma example_passes_gates: "passes_gates example_plugin example_msg"
  by (simp add: passes_gates_def dispatch_defs example_defs example_msg_def)

lemma example_resolve:
  "check_printer_id example_plugin example_msg = None
   \<and> resolve example_plugin example_msg = Inr (Some (Callable set_temperature))
   \<and> unpack (dict_get_default example_msg ''args'' (PList [])) = Inr [PInt 200]"
  by (simp add: dispatch_defs example_plugin_def example_msg_def)

text \<open>
  C1. An envelope with a ref (one that is not \<^verbatim>\<open>None\<close>) is handled twice in immediate
  succession, by the same plugin. The two traces together hold at most one invocation, at
  most one reply on the reliable channel and at most one on the data channel. The second
  handling leaves the connection, and so the ledger, as it was, and its trace is empty or
  the debug line of a duplicate: no invocation, no reply. When the envelope passes the
  identity check and its func resolves, the second handling finds the ref in the ledger
  and is dropped as a duplicate; when moreover the ref was not in the ledger before and
  the func is an operation, the two traces hold exactly one invocation.
\<close>

theorem dedup_idempotence:
  assumes ref: "dict_get msg ''ref'' \<noteq> PNone"
    and first: "on_message_to_plugin ev p c msg = (c1, evs1, r1)"
    and second: "on_message_to_plugin ev2 p c1 msg = (c2, evs2, r2)"
  shows "length (filter is_invoke (evs1 @ evs2)) \<le> 1
       \<and> length (filter is_ws_reply (evs1 @ evs2)) \<le> 1
       \<and> length (filter is_dc_reply (evs1 @ evs2)) \<le> 1
       \<and> c2 = c1
       \<and> (evs2 = [] \<or> evs2 = [LogDebug ''Got duplicate ref, ignoring msg''])
       \<and> (passes_gates p msg \<longrightarrow>
            py_in (dict_get msg ''ref'') (seen_refs c1)
            \<and> evs2 = [LogDebug ''Got duplicate ref, ignoring msg''] \<and> r2 = None)
       \<and> (check_printer_id p msg = None \<and> resolve p msg = Inr (Some (Callable h))
            \<and> unpack (dict_get_default msg ''args'' (PList [])) = Inr args
            \<and> \<not> py_in (dict_get msg ''ref'') (seen_refs c) \<longrightarrow>
            filter is_invoke (evs1 @ evs2) =
              [Invoke (dict_get msg ''target'') (dict_get msg ''func'') args])"
proof (cases "passes_gates p msg")
  case False
  from blocked_at_gates [OF False, of ev c] first have 1: "c1 = c" "evs1 = []" by auto
  from blocked_at_gates [OF False, of ev2 c1] second have 2: "c2 = c1" "evs2 = []" by auto
  from False have "\<not> (check_printer_id p msg = None \<and> resolve p msg = Inr (Some (Callable h)))"
    by (auto simp: passes_gates_def)
  with False 1 2 show ?thesis by auto
next
  case True
  let ?ref = "dict_get msg ''ref''"
  have seen: "py_in ?ref (seen_refs c1)"
       and cnt: "length (filter is_invoke evs1) \<le> 1 \<and> length (filter is_ws_reply evs1) \<le> 1
                 \<and> length (filter is_dc_reply evs1) \<le> 1"
  proof -
    show "py_in ?ref (seen_refs c1)"
    proof (cases "py_in ?ref (seen_refs c)")
      case True
      with duplicate_dropped [OF \<open>passes_gates p msg\<close> ref True, of ev] first show ?thesis by simp
    next
      case False
      with fresh_handled [OF \<open>passes_gates p msg\<close> _ first] ref show ?thesis
        by (simp add: py_in_recorded)
    qed
    show "length (filter is_invoke evs1) \<le> 1 \<and> length (filter is_ws_reply evs1) \<le> 1
                 \<and> length (filter is_dc_reply evs1) \<le> 1"
    proof (cases "py_in ?ref (seen_refs c)")
      case True
      with duplicate_dropped [OF \<open>passes_gates p msg\<close> ref True, of ev] first show ?thesis by auto
    next
      case False
      with fresh_handled [OF \<open>passes_gates p msg\<close> _ first] show ?thesis by simp
    qed
  qed
  from duplicate_dropped [OF True ref seen, of ev2] second
  have 2: "c2 = c1" "evs2 = [LogDebug ''Got duplicate ref, ignoring msg'']" "r2 = None"
    by auto
  have 3: "filter is_invoke (evs1 @ evs2) =
              [Invoke (dict_get msg ''target'') (dict_get msg ''func'') args]"
    if "check_printer_id p msg = None" "resolve p msg = Inr (Some (Callable h))"
       "unpack (dict_get_default msg ''args'' (PList [])) = Inr args"
       "\<not> py_in ?ref (seen_refs c)"
    using invoked_once [OF that(1-3) _ first] that(4) 2 by simp
  from seen cnt 2 3 show ?thesis by simp
qed

theorem dedup_idempotence_witness:
  "dict_get example_msg ''ref'' \<noteq> PNone
   \<and> passes_gates example_plugin example_msg
   \<and> check_printer_id example_plugin example_msg = None
   \<and> resolve example_plugin example_msg = Inr (Some (Callable set_temperature))
   \<and> unpack (dict_get_default example_msg ''args'' (PList [])) = Inr [PInt 200]
   \<and> \<not> py_in (dict_get example_msg ''ref'') (seen_refs example_conn)
   \<and> on_message_to_plugin example_env example_plugin example_conn example_msg =
       (example_conn_after, example_trace, None)
   \<and> on_message_to_plugin example_env example_plugin example_conn_after example_msg =
       (example_conn_after, [LogDebug ''Got duplicate ref, ignoring msg''], None)
   \<and> py_in (dict_get example_msg ''ref'') (seen_refs example_conn_after)
   \<and> filter is_invoke (example_trace @ [LogDebug ''Got duplicate ref, ignoring msg'']) =
       [Invoke (dict_get example_msg ''target'') (dict_get example_msg ''func'') [PInt 200]]
   \<and> length (filter is_ws_reply
               (example_trace @ [LogDebug ''Got duplicate ref, ignoring msg''])) \<le> 1
   \<and> length (filter is_dc_reply
               (example_trace @ [LogDebug ''Got duplicate ref, ignoring msg''])) \<le> 1"
proof -
  have r: "dict_get example_msg ''ref'' \<noteq> PNone"
    by (simp add: dict_get_def example_msg_def)
  have n: "\<not> py_in (dict_get example_msg ''ref'') (seen_refs example_conn)"
    by (simp add: py_in_def example_conn_def ClientConn_init_def)
  from dedup_idempotence [OF r example_first example_second, of set_temperature "[PInt 200]"]
    r n example_passes_gates example_resolve example_first example_second
  show ?thesis by simp
qed

section \<open>The dispatcher: envelopes without a ref\<close>

text \<open>The ledger is carried through the replies untouched.\<close>

lemma send_msg_to_client_ledger:
  "send_msg_to_client ev p (c\<lparr>seen_refs := refs\<rparr>) data =
     (case send_msg_to_client ev p c data of (c', evs, r) \<Rightarrow> (c'\<lparr>seen_refs := refs\<rparr>, evs, r))"
  by (simp add: send_msg_to_client_def Let_def split: sum.splits prod.splits)

lemma reply_ledger:
  "reply ev p (c\<lparr>seen_refs := refs\<rparr>) ack_ref ret =
     (case reply ev p c ack_ref ret of (c', evs, r) \<Rightarrow> (c'\<lparr>seen_refs := refs\<rparr>, evs, r))"
  by (simp add: reply_def send_msg_to_client_ledger split: prod.splits option.splits)

lemma no_ref_ledger:
  assumes "dict_get msg ''ref'' = PNone"
  shows "on_message_to_plugin ev p (c\<lparr>seen_refs := refs\<rparr>) msg =
     (case on_message_to_plugin ev p c msg of (c', evs, r) \<Rightarrow> (c'\<lparr>seen_refs := refs\<rparr>, evs, r))"
  using assms
  by (simp add: on_message_to_plugin_def reply_ledger split: option.splits sum.splits prod.splits)

lemma no_ref_example:
  "on_message_to_plugin example_env example_plugin example_conn_after no_ref_msg =
     (example_conn_after,
      [Invoke (PStr ''printer'') (PStr ''set_temperature'') [PInt 200], Sleep, PostUpdateToServer],
      None)"
  by (simp add: dispatch_defs example_defs no_ref_msg_def example_conn_after_def)

text \<open>
  C8. An envelope whose ref is absent or \<^verbatim>\<open>None\<close> leaves the ledger as it was, and what
  the dispatcher does with it does not depend on the ledger: with any other ledger the
  trace and the outcome are the same and that ledger is returned unchanged. When the
  envelope passes the identity check and its func resolves to an operation, the operation
  is invoked, whatever the ledger holds.
\<close>

theorem no_ref_bypasses_ledger:
  assumes "dict_get msg ''ref'' = PNone"
  shows "seen_refs (fst (on_message_to_plugin ev p c msg)) = seen_refs c
       \<and> on_message_to_plugin ev p (c\<lparr>seen_refs := refs\<rparr>) msg =
           (case on_message_to_plugin ev p c msg of
              (c', evs, r) \<Rightarrow> (c'\<lparr>seen_refs := refs\<rparr>, evs, r))
       \<and> (check_printer_id p msg = None \<and> resolve p msg = Inr (Some (Callable h))
            \<and> unpack (dict_get_default msg ''args'' (PList [])) = Inr args \<longrightarrow>
            filter is_invoke (fst (snd (on_message_to_plugin ev p c msg))) =
              [Invoke (dict_get msg ''target'') (dict_get msg ''func'') args])"
proof -
  obtain c' evs r where om: "on_message_to_plugin ev p c msg = (c', evs, r)"
    by (metis prod_cases3)
  have 1: "seen_refs c' = seen_refs c"
  proof (cases "passes_gates p msg")
    case True
    from fresh_handled [OF True _ om] assms show ?thesis by simp
  next
    case False
    from blocked_at_gates [OF False, of ev c] om show ?thesis by auto
  qed
  have 3: "filter is_invoke evs = [Invoke (dict_get msg ''target'') (dict_get msg ''func'') args]"
    if "check_printer_id p msg = None" "resolve p msg = Inr (Some (Callable h))"
       "unpack (dict_get_default msg ''args'' (PList [])) = Inr args"
    using invoked_once [OF that _ om] assms by simp
  from 1 3 om no_ref_ledger [OF assms, where ev = ev and p = p and c = c and refs = refs] show ?thesis by simp
qed

theorem no_ref_bypasses_ledger_witness:
  "dict_get no_ref_msg ''ref'' = PNone
   \<and> check_printer_id example_plugin no_ref_msg = None
   \<and> resolve example_plugin no_ref_msg = Inr (Some (Callable set_temperature))
   \<and> unpack (dict_get_default no_ref_msg ''args'' (PList [])) = Inr [PInt 200]
   \<and> seen_refs (fst (on_message_to_plugin example_env example_plugin example_conn_after
                       no_ref_msg)) = [PStr ''abc123'']
   \<and> on_message_to_plugin example_env example_plugin
        (example_conn_after\<lparr>seen_refs := [PNone, PInt 7]\<rparr>) no_ref_msg =
       (example_conn_after\<lparr>seen_refs := [PNone, PInt 7]\<rparr>,
        [Invoke (PStr ''printer'') (PStr ''set_temperature'') [PInt 200], Sleep,
         PostUpdateToServer], None)
   \<and> filter is_invoke (fst (snd (on_message_to_plugin example_env example_plugin
                                   example_conn_after no_ref_msg))) =
       [Invoke (PStr ''printer'') (PStr ''set_temperature'') [PInt 200]]"
proof -
  have r: "dict_get no_ref_msg ''ref'' = PNone"
    by (simp add: dict_get_def no_ref_msg_def)
  have g: "check_printer_id example_plugin no_ref_msg = None
     \<and> resolve example_plugin no_ref_msg = Inr (Some (Callable set_temperature))
     \<and> unpack (dict_get_default no_ref_msg ''args'' (PList [])) = Inr [PInt 200]"
    by (simp add: dispatch_defs example_plugin_def no_ref_msg_def)
  have t: "dict_get no_ref_msg ''target'' = PStr ''printer''"
    "dict_get no_ref_msg ''func'' = PStr ''set_temperature''"
    by (simp_all add: dict_get_def no_ref_msg_def)
  from no_ref_bypasses_ledger
         [OF r, where ev = example_env and p = example_plugin and c = example_conn_after
            and refs = "[PNone, PInt 7]" and h = set_temperature and args = "[PInt 200]"]
    r g t no_ref_example
  show ?thesis by (simp add: example_conn_after_def)
qed

section \<open>The dispatcher: a ref that is false\<close>

text \<open>
  C10. An envelope whose ref is not \<^verbatim>\<open>None\<close> but false (the empty string, 0), not yet in
  the ledger, for an operation that returns: the ref is recorded in the ledger, the
  operation is invoked, no reply is sent on either channel, and the status refresh
  follows.
\<close>

theorem falsy_ref_recorded_without_reply:
  assumes "check_printer_id p msg = None"
    and "resolve p msg = Inr (Some (Callable h))"
    and "unpack (dict_get_default msg ''args'' (PList [])) = Inr args"
    and "h args = Inr ret"
    and "dict_get msg ''ref'' \<noteq> PNone"
    and "\<not> truthy (dict_get msg ''ref'')"
    and "\<not> py_in (dict_get msg ''ref'') (seen_refs c)"
  shows "on_message_to_plugin ev p c msg =
           (c\<lparr>seen_refs := deque_append seen_refs_maxlen (seen_refs c) (dict_get msg ''ref'')\<rparr>,
            [Invoke (dict_get msg ''target'') (dict_get msg ''func'') args,
             Sleep, PostUpdateToServer],
            None)
       \<and> py_in (dict_get msg ''ref'') (seen_refs (fst (on_message_to_plugin ev p c msg)))"
proof -
  have "on_message_to_plugin ev p c msg =
           (c\<lparr>seen_refs := deque_append seen_refs_maxlen (seen_refs c) (dict_get msg ''ref'')\<rparr>,
            [Invoke (dict_get msg ''target'') (dict_get msg ''func'') args,
             Sleep, PostUpdateToServer],
            None)"
    using assms by (simp add: on_message_to_plugin_def call_func_def reply_def)
  then show ?thesis by (simp add: py_in_recorded)
qed

theorem falsy_ref_recorded_without_reply_witness:
  "check_printer_id example_plugin zero_ref_msg = None
   \<and> resolve example_plugin zero_ref_msg = Inr (Some (Callable set_temperature))
   \<and> unpack (dict_get_default zero_ref_msg ''args'' (PList [])) = Inr [PInt 200]
   \<and> set_temperature [PInt 200] = Inr (PList [PInt 200])
   \<and> dict_get zero_ref_msg ''ref'' \<noteq> PNone
   \<and> \<not> truthy (dict_get zero_ref_msg ''ref'')
   \<and> \<not> py_in (dict_get zero_ref_msg ''ref'') (seen_refs example_conn_after)
   \<and> on_message_to_plugin example_env example_plugin example_conn_after zero_ref_msg =
       (example_conn_after\<lparr>seen_refs := [PStr ''abc123'', PInt 0]\<rparr>,
        [Invoke (PStr ''printer'') (PStr ''set_temperature'') [PInt 200], Sleep,
         PostUpdateToServer], None)"
proof -
  have g: "check_printer_id example_plugin zero_ref_msg = None"
    "resolve example_plugin zero_ref_msg = Inr (Some (Callable set_temperature))"
    "unpack (dict_get_default zero_ref_msg ''args'' (PList [])) = Inr [PInt 200]"
    by (simp_all add: dispatch_defs example_plugin_def zero_ref_msg_def)
  have h: "set_temperature [PInt 200] = Inr (PList [PInt 200])"
    by (simp add: set_temperature_def)
  have r: "dict_get zero_ref_msg ''ref'' \<noteq> PNone" "\<not> truthy (dict_get zero_ref_msg ''ref'')"
    "\<not> py_in (dict_get zero_ref_msg ''ref'') (seen_refs example_conn_after)"
    by (simp_all add: dict_get_def zero_ref_msg_def py_in_def example_conn_after_def)
  have t: "dict_get zero_ref_msg ''target'' = PStr ''printer''"
    "dict_get zero_ref_msg ''func'' = PStr ''set_temperature''"
    "dict_get zero_ref_msg ''ref'' = PInt 0"
    by (simp_all add: dict_get_def zero_ref_msg_def)
  from falsy_ref_recorded_without_reply [OF g h r, where ev = example_env] g h r t
  show ?thesis
    by (simp add: example_conn_after_def deque_append_def seen_refs_maxlen_def)
qed

section \<open>The dispatcher: identity check\<close>

text \<open>
  C5, as it is stated, fails: an envelope that carries the \<^verbatim>\<open>printer_id\<close> 0 while the
  linked printer's id is \<^verbatim>\<open>p1\<close> is not rejected. Line 27 tests the truth of
  \<^verbatim>\<open>msg.get('printer_id')\<close>, so a \<^verbatim>\<open>printer_id\<close> that is false is never compared: the
  operation is invoked and both replies are sent.
\<close>

theorem falsy_printer_id_counterexample:
  "map_of zero_printer_id_msg ''printer_id'' = Some (PInt 0)
   \<and> map_of (linked_printer example_plugin) ''id'' = Some (PStr ''p1'')
   \<and> \<not> py_eq (PInt 0) (PStr ''p1'')
   \<and> on_message_to_plugin example_env example_plugin example_conn zero_printer_id_msg =
       (example_conn_after, example_trace, None)"
  by (simp add: dispatch_defs example_defs example_msg_def zero_printer_id_msg_def
      example_conn_after_def example_trace_def)

text \<open>
  C5, amended. An envelope whose \<^verbatim>\<open>printer_id\<close> is true (not \<^verbatim>\<open>None\<close>, 0, empty), when
  the linked printer has an id and the \<^verbatim>\<open>printer_id\<close> differs from it, is rejected with
  the mismatch exception: the connection is unchanged and the trace is empty, so nothing
  is resolved, recorded, invoked or sent. An envelope whose \<^verbatim>\<open>printer_id\<close> is absent,
  false, or equal to the linked id passes the identity check.
\<close>

theorem printer_id_enforcement:
  "(truthy (dict_get msg ''printer_id'') \<and> dict_item (linked_printer p) ''id'' = Inr lid
      \<and> \<not> py_eq (dict_get msg ''printer_id'') lid \<longrightarrow>
      on_message_to_plugin ev p c msg = (c, [], Some (Exception ''printer_id mismatch'')))
   \<and> (\<not> truthy (dict_get msg ''printer_id'')
        \<or> (dict_item (linked_printer p) ''id'' = Inr lid
            \<and> py_eq (dict_get msg ''printer_id'') lid) \<longrightarrow>
      check_printer_id p msg = None)"
proof -
  have 1: "check_printer_id p msg = Some (Exception ''printer_id mismatch'')"
    if "truthy (dict_get msg ''printer_id'')" "dict_item (linked_printer p) ''id'' = Inr lid"
       "\<not> py_eq (dict_get msg ''printer_id'') lid"
    using that by (auto simp: check_printer_id_def dict_get_def dict_item_def split: option.splits)
  have 2: "check_printer_id p msg = None"
    if "\<not> truthy (dict_get msg ''printer_id'')
        \<or> (dict_item (linked_printer p) ''id'' = Inr lid
            \<and> py_eq (dict_get msg ''printer_id'') lid)"
    using that by (auto simp: check_printer_id_def dict_get_def dict_item_def split: option.splits)
  from 1 2 show ?thesis by (auto simp: on_message_to_plugin_def)
qed

theorem printer_id_enforcement_witness:
  "truthy (dict_get other_printer_msg ''printer_id'')
   \<and> dict_item (linked_printer example_plugin) ''id'' = Inr (PStr ''p1'')
   \<and> \<not> py_eq (dict_get other_printer_msg ''printer_id'') (PStr ''p1'')
   \<and> on_message_to_plugin example_env example_plugin example_conn other_printer_msg =
       (example_conn, [], Some (Exception ''printer_id mismatch''))
   \<and> py_eq (dict_get same_printer_msg ''printer_id'') (PStr ''p1'')
   \<and> check_printer_id example_plugin same_printer_msg = None
   \<and> \<not> truthy (dict_get example_msg ''printer_id'')
   \<and> check_printer_id example_plugin example_msg = None"
proof -
  have a: "truthy (dict_get other_printer_msg ''printer_id'')"
    "dict_item (linked_printer example_plugin) ''id'' = Inr (PStr ''p1'')"
    "\<not> py_eq (dict_get other_printer_msg ''printer_id'') (PStr ''p1'')"
    by (simp_all add: dict_get_def dict_item_def other_printer_msg_def example_plugin_def)
  have b: "py_eq (dict_get same_printer_msg ''printer_id'') (PStr ''p1'')"
    by (simp add: dict_get_def same_printer_msg_def)
  have c: "\<not> truthy (dict_get example_msg ''printer_id'')"
    by (simp add: dict_get_def example_msg_def)
  from a printer_id_enforcement
         [where msg = other_printer_msg and p = example_plugin and lid = "PStr ''p1''"
            and ev = example_env and c = example_conn]
  have 1: "on_message_to_plugin example_env example_plugin example_conn other_printer_msg =
       (example_conn, [], Some (Exception ''printer_id mismatch''))"
    by blast
  from a(2) b printer_id_enforcement
         [where msg = same_printer_msg and p = example_plugin and lid = "PStr ''p1''"]
  have 2: "check_printer_id example_plugin same_printer_msg = None"
    by blast
  from c printer_id_enforcement [where msg = example_msg and p = example_plugin]
  have 3: "check_printer_id example_plugin example_msg = None"
    by blast
  from a b c 1 2 3 show ?thesis by simp
qed

text \<open>
  When the linked printer has no id at all, line 28 fails on \<^verbatim>\<open>linked_printer['id']\<close>
  before it compares: an envelope with a true \<^verbatim>\<open>printer_id\<close> is stopped at the same point,
  by a \<^verbatim>\<open>KeyError\<close>.
\<close>

lemma unlinked_printer_id_raises:
  assumes "truthy (dict_get msg ''printer_id'')"
    and "map_of (linked_printer p) ''id'' = None"
  shows "on_message_to_plugin ev p c msg = (c, [], Some (KeyError ''id''))"
proof -
  from assms have "check_printer_id p msg = Some (KeyError ''id'')"
    by (auto simp: check_printer_id_def dict_get_def dict_item_def split: option.splits)
  then show ?thesis by (simp add: on_message_to_plugin_def)
qed

section \<open>The reply to the client\<close>

lemma map_of_dict_set: "map_of (dict_set d k v) k = Some v"
proof (cases "k \<in> set (map fst d)")
  case True
  then show ?thesis
    by (induction d) (auto simp: dict_set_def)
next
  case False
  then have "map_of d k = None" by (simp add: map_of_eq_None_iff)
  with False show ?thesis by (simp add: dict_set_def map_add_def)
qed

text \<open>
  C9, as it is stated, fails in its second half: a linked printer whose id is there but
  false (here 0) is treated as one without an id, and nothing is added, encoded or sent.
\<close>

theorem falsy_id_counterexample:
  "map_of (linked_printer zero_id_plugin) ''id'' = Some (PInt 0)
   \<and> send_msg_to_client example_env zero_id_plugin example_conn
        [(''ref'', PStr ''abc123''), (''ret'', PNone), (''_webrtc'', PBool True)] =
       (example_conn, [], None)"
  by (simp add: send_msg_to_client_def zero_id_plugin_def dict_get_def)

text \<open>
  C9, amended. When the id of the linked printer is missing or false,
  \<^verbatim>\<open>send_msg_to_client\<close> returns at once: the connection is unchanged, the trace is empty,
  whatever the encoder is. When the id is true, it is stored in the message under
  \<^verbatim>\<open>printer_id\<close> before the message is encoded, and the encoding is handed to
  \<^verbatim>\<open>DataChannelConn.send\<close>.
\<close>

theorem send_msg_to_client_identity:
  "(\<not> truthy (dict_get (linked_printer p) ''id'') \<longrightarrow>
      send_msg_to_client ev p c data = (c, [], None))
   \<and> (truthy (dict_get (linked_printer p) ''id'') \<longrightarrow>
      send_msg_to_client ev p c data =
        (case send ev (data_channel_conn c)
                (encode ev (dict_set data ''printer_id'' (dict_get (linked_printer p) ''id''))) of
           (dc, evs, r) \<Rightarrow>
             (c\<lparr>data_channel_conn := dc\<rparr>,
              DataChannelSend
                (encode ev (dict_set data ''printer_id'' (dict_get (linked_printer p) ''id'')))
                # evs, r))
      \<and> map_of (dict_set data ''printer_id'' (dict_get (linked_printer p) ''id'')) ''printer_id''
          = Some (dict_get (linked_printer p) ''id''))"
proof -
  have "dict_item (linked_printer p) ''id'' = Inr (dict_get (linked_printer p) ''id'')"
    if "truthy (dict_get (linked_printer p) ''id'')"
    using that by (auto simp: dict_item_def dict_get_def split: option.splits)
  then show ?thesis
    by (simp add: send_msg_to_client_def Let_def map_of_dict_set)
qed

theorem send_msg_to_client_identity_witness:
  "\<not> truthy (dict_get (linked_printer unlinked_plugin) ''id'')
   \<and> send_msg_to_client example_env unlinked_plugin example_conn
        [(''ref'', PStr ''abc123''), (''ret'', PNone), (''_webrtc'', PBool True)] =
       (example_conn, [], None)
   \<and> truthy (dict_get (linked_printer example_plugin) ''id'')
   \<and> send_msg_to_client example_env example_plugin example_conn
        [(''ref'', PStr ''abc123''), (''ret'', PNone), (''_webrtc'', PBool True)] =
       (example_conn\<lparr>data_channel_conn := (data_channel_conn example_conn)\<lparr>sock := Some 3\<rparr>\<rparr>,
        [DataChannelSend
           (encode example_env
              [(''ref'', PStr ''abc123''), (''ret'', PNone), (''_webrtc'', PBool True),
               (''printer_id'', PStr ''p1'')]),
         SocketCreate, SendTo 3 [0, 0, 0, 0] ''127.0.0.1'' 8009], None)"
proof -
  let ?data = "[(''ref'', PStr ''abc123''), (''ret'', PNone), (''_webrtc'', PBool True)]"
  have a: "\<not> truthy (dict_get (linked_printer unlinked_plugin) ''id'')"
    by (simp add: unlinked_plugin_def dict_get_def)
  have b: "truthy (dict_get (linked_printer example_plugin) ''id'')"
    by (simp add: example_plugin_def dict_get_def)
  from a send_msg_to_client_identity
    [where p = unlinked_plugin and ev = example_env and c = example_conn and data = ?data]
  have 1: "send_msg_to_client example_env unlinked_plugin example_conn ?data =
       (example_conn, [], None)"
    by blast
  from b send_msg_to_client_identity
    [where p = example_plugin and ev = example_env and c = example_conn and data = ?data]
  have "send_msg_to_client example_env example_plugin example_conn ?data =
        (case send example_env (data_channel_conn example_conn)
                (encode example_env
                  (dict_set ?data ''printer_id'' (dict_get (linked_printer example_plugin) ''id''))) of
           (dc, evs, r) \<Rightarrow>
             (example_conn\<lparr>data_channel_conn := dc\<rparr>,
              DataChannelSend
                (encode example_env
                  (dict_set ?data ''printer_id'' (dict_get (linked_printer example_plugin) ''id'')))
                # evs, r))"
    by blast
  then have 2: "send_msg_to_client example_env example_plugin example_conn ?data =
       (example_conn\<lparr>data_channel_conn := (data_channel_conn example_conn)\<lparr>sock := Some 3\<rparr>\<rparr>,
        [DataChannelSend
           (encode example_env
              [(''ref'', PStr ''abc123''), (''ret'', PNone), (''_webrtc'', PBool True),
               (''printer_id'', PStr ''p1'')]),
         SocketCreate, SendTo 3 [0, 0, 0, 0] ''127.0.0.1'' 8009], None)"
    by (simp add: example_defs dict_get_def dict_set_def send_def open_sock_def transmit_def)
  from a b 1 2 show ?thesis by simp
qed

text \<open>
  C6, as it is stated, fails twice. An envelope with the ref 0, which is present and not a
  duplicate, gets no reply on either channel, since line 49 tests the truth of the ref.
  And when the linked printer has no id, an envelope with a true ref is answered on the
  reliable channel only.
\<close>

theorem reply_gate_counterexample:
  "dict_get zero_ref_msg ''ref'' = PInt 0
   \<and> \<not> py_in (PInt 0) (seen_refs example_conn)
   \<and> on_message_to_plugin example_env example_plugin example_conn zero_ref_msg =
       (example_conn\<lparr>seen_refs := [PInt 0]\<rparr>,
        [Invoke (PStr ''printer'') (PStr ''set_temperature'') [PInt 200], Sleep,
         PostUpdateToServer], None)
   \<and> dict_get example_msg ''ref'' = PStr ''abc123''
   \<and> \<not> py_in (PStr ''abc123'') (seen_refs example_conn)
   \<and> on_message_to_plugin example_env unlinked_plugin example_conn example_msg =
       (example_conn\<lparr>seen_refs := [PStr ''abc123'']\<rparr>,
        [Invoke (PStr ''printer'') (PStr ''set_temperature'') [PInt 200],
         SendWsMsgToServer
           [(''passthru'', PDict [(''ref'', PStr ''abc123''), (''ret'', PList [PInt 200])])],
         Sleep, PostUpdateToServer], None)"
  by (simp add: dispatch_defs example_defs example_msg_def zero_ref_msg_def unlinked_plugin_def)

text \<open>
  C6, amended. For an envelope that is not a duplicate and whose ref is true, after the
  operation returns \<open>ret\<close>: the reliable channel gets \<^verbatim>\<open>{passthru: {ref, ret}}\<close>, whether
  or not a printer is linked. When the linked printer has a true id,
  \<^verbatim>\<open>DataChannelConn.send\<close> gets the encoding of the message with \<^verbatim>\<open>ref\<close>, \<^verbatim>\<open>ret\<close>,
  \<^verbatim>\<open>_webrtc: True\<close> and the linked \<^verbatim>\<open>printer_id\<close>, and the status refresh follows unless
  the transport raised; when it has none, nothing goes to the transport and the status
  refresh follows.
\<close>

theorem reply_on_both_channels:
  assumes "check_printer_id p msg = None"
    and "resolve p msg = Inr (Some (Callable h))"
    and "unpack (dict_get_default msg ''args'' (PList [])) = Inr args"
    and "h args = Inr ret"
    and "truthy (dict_get msg ''ref'')"
    and "\<not> py_in (dict_get msg ''ref'') (seen_refs c)"
  shows "(\<not> truthy (dict_get (linked_printer p) ''id'') \<longrightarrow>
          on_message_to_plugin ev p c msg =
            (c\<lparr>seen_refs :=
                 deque_append seen_refs_maxlen (seen_refs c) (dict_get msg ''ref'')\<rparr>,
             [Invoke (dict_get msg ''target'') (dict_get msg ''func'') args,
              SendWsMsgToServer
                [(''passthru'', PDict [(''ref'', dict_get msg ''ref''), (''ret'', ret)])],
              Sleep, PostUpdateToServer],
             None))
       \<and> (truthy (dict_get (linked_printer p) ''id'') \<longrightarrow>
          on_message_to_plugin ev p c msg =
            (case send ev (data_channel_conn c)
                    (encode ev [(''ref'', dict_get msg ''ref''), (''ret'', ret),
                                (''_webrtc'', PBool True),
                                (''printer_id'', dict_get (linked_printer p) ''id'')]) of
               (dc, evs, r) \<Rightarrow>
                 (c\<lparr>seen_refs :=
                      deque_append seen_refs_maxlen (seen_refs c) (dict_get msg ''ref''),
                    data_channel_conn := dc\<rparr>,
                  [Invoke (dict_get msg ''target'') (dict_get msg ''func'') args,
                   SendWsMsgToServer
                     [(''passthru'', PDict [(''ref'', dict_get msg ''ref''), (''ret'', ret)])],
                   DataChannelSend
                     (encode ev [(''ref'', dict_get msg ''ref''), (''ret'', ret),
                                 (''_webrtc'', PBool True),
                                 (''printer_id'', dict_get (linked_printer p) ''id'')])]
                  @ evs @ (if r = None then [Sleep, PostUpdateToServer] else []),
                  r)))"
proof -
  let ?ref = "dict_get msg ''ref''"
  let ?pid = "dict_get (linked_printer p) ''id''"
  let ?c1 = "c\<lparr>seen_refs := deque_append seen_refs_maxlen (seen_refs c) ?ref\<rparr>"
  let ?data = "[(''ref'', ?ref), (''ret'', ret), (''_webrtc'', PBool True)]"
  let ?payload = "encode ev [(''ref'', ?ref), (''ret'', ret), (''_webrtc'', PBool True),
                             (''printer_id'', ?pid)]"
  let ?inv = "Invoke (dict_get msg ''target'') (dict_get msg ''func'') args"
  let ?ws = "SendWsMsgToServer [(''passthru'', PDict [(''ref'', ?ref), (''ret'', ret)])]"
  from assms(5) have nn: "?ref \<noteq> PNone" by auto
  have cf: "call_func msg (Some (Callable h)) = ([?inv], Inr ret)"
    using assms(3,4) by (simp add: call_func_def)
  have om: "on_message_to_plugin ev p c msg =
      (case reply ev p ?c1 ?ref ret of (c2, evs2, r) \<Rightarrow> (c2, ?inv # evs2, r))"
    using assms(1,2,6) nn cf by (simp add: on_message_to_plugin_def Let_def)
  have unlinked: "on_message_to_plugin ev p c msg =
      (?c1, [?inv, ?ws, Sleep, PostUpdateToServer], None)"
    if "\<not> truthy ?pid"
  proof -
    from that have "send_msg_to_client ev p ?c1 ?data = (?c1, [], None)"
      by (simp add: send_msg_to_client_def)
    with assms(5) have "reply ev p ?c1 ?ref ret = (?c1, [?ws, Sleep, PostUpdateToServer], None)"
      by (simp add: reply_def)
    with om show ?thesis by simp
  qed
  have linked: "on_message_to_plugin ev p c msg =
      (case send ev (data_channel_conn c) ?payload of
         (dc, evs, r) \<Rightarrow>
           (?c1\<lparr>data_channel_conn := dc\<rparr>,
            [?inv, ?ws, DataChannelSend ?payload] @ evs
              @ (if r = None then [Sleep, PostUpdateToServer] else []), r))"
    if t: "truthy ?pid"
  proof -
    obtain dc evs r where s: "send ev (data_channel_conn c) ?payload = (dc, evs, r)"
      by (metis prod_cases3)
    have it: "dict_item (linked_printer p) ''id'' = Inr ?pid"
      using t by (auto simp: dict_item_def dict_get_def split: option.splits)
    have ds: "dict_set ?data ''printer_id'' ?pid = ?data @ [(''printer_id'', ?pid)]"
      by (simp add: dict_set_def)
    have sm: "send_msg_to_client ev p ?c1 ?data =
        (?c1\<lparr>data_channel_conn := dc\<rparr>, DataChannelSend ?payload # evs, r)"
      using t s it ds by (simp add: send_msg_to_client_def Let_def)
    have "reply ev p ?c1 ?ref ret =
        (?c1\<lparr>data_channel_conn := dc\<rparr>,
         ?ws # DataChannelSend ?payload # evs
           @ (if r = None then [Sleep, PostUpdateToServer] else []), r)"
      using assms(5) sm by (cases r) (simp_all add: reply_def)
    with om s show ?thesis by simp
  qed
  from unlinked linked show ?thesis by simp
qed

theorem reply_on_both_channels_witness:
  "check_printer_id example_plugin example_msg = None
   \<and> resolve example_plugin example_msg = Inr (Some (Callable set_temperature))
   \<and> unpack (dict_get_default example_msg ''args'' (PList [])) = Inr [PInt 200]
   \<and> set_temperature [PInt 200] = Inr (PList [PInt 200])
   \<and> truthy (dict_get example_msg ''ref'')
   \<and> \<not> py_in (dict_get example_msg ''ref'') (seen_refs example_conn)
   \<and> truthy (dict_get (linked_printer example_plugin) ''id'')
   \<and> on_message_to_plugin example_env example_plugin example_conn example_msg =
       (example_conn_after, example_trace, None)
   \<and> check_printer_id unlinked_plugin example_msg = None
   \<and> resolve unlinked_plugin example_msg = Inr (Some (Callable set_temperature))
   \<and> \<not> truthy (dict_get (linked_printer unlinked_plugin) ''id'')
   \<and> on_message_to_plugin example_env unlinked_plugin example_conn example_msg =
       (example_conn\<lparr>seen_refs := [PStr ''abc123'']\<rparr>,
        [Invoke (PStr ''printer'') (PStr ''set_temperature'') [PInt 200],
         SendWsMsgToServer
           [(''passthru'', PDict [(''ref'', PStr ''abc123''), (''ret'', PList [PInt 200])])],
         Sleep, PostUpdateToServer], None)"
proof -
  have t: "truthy (dict_get example_msg ''ref'')"
    by (simp add: dict_get_def example_msg_def)
  have n: "\<not> py_in (dict_get example_msg ''ref'') (seen_refs example_conn)"
    by (simp add: py_in_def example_conn_def ClientConn_init_def)
  have l: "truthy (dict_get (linked_printer example_plugin) ''id'')"
    by (simp add: example_plugin_def dict_get_def)
  have u: "\<not> truthy (dict_get (linked_printer unlinked_plugin) ''id'')"
    by (simp add: unlinked_plugin_def dict_get_def)
  have h: "set_temperature [PInt 200] = Inr (PList [PInt 200])"
    by (simp add: set_temperature_def)
  have g: "check_printer_id example_plugin example_msg = None"
    "resolve example_plugin example_msg = Inr (Some (Callable set_temperature))"
    "unpack (dict_get_default example_msg ''args'' (PList [])) = Inr [PInt 200]"
    using example_resolve by simp_all
  have gu: "check_printer_id unlinked_plugin example_msg = None"
    "resolve unlinked_plugin example_msg = Inr (Some (Callable set_temperature))"
    by (simp_all add: dispatch_defs unlinked_plugin_def example_plugin_def example_msg_def)
  have v: "dict_get example_msg ''target'' = PStr ''printer''"
    "dict_get example_msg ''func'' = PStr ''set_temperature''"
    "dict_get example_msg ''ref'' = PStr ''abc123''"
    by (simp_all add: dict_get_def example_msg_def)
  have s: "send example_env (data_channel_conn example_conn)
        (encode example_env
           [(''ref'', dict_get example_msg ''ref''), (''ret'', PList [PInt 200]),
            (''_webrtc'', PBool True),
            (''printer_id'', dict_get (linked_printer example_plugin) ''id'')]) =
       ((data_channel_conn example_conn)\<lparr>sock := Some 3\<rparr>,
        [SocketCreate, SendTo 3 [0, 0, 0, 0] ''127.0.0.1'' 8009], None)"
    by (simp add: example_defs send_def open_sock_def transmit_def)
  from l s reply_on_both_channels [OF g h t n, where ev = example_env]
  have 1: "on_message_to_plugin example_env example_plugin example_conn example_msg =
       (example_conn_after, example_trace, None)"
    by (simp add: v example_conn_after_def example_trace_def example_defs dict_get_def
        example_msg_def deque_append_def seen_refs_maxlen_def)
  from u reply_on_both_channels [OF gu g(3) h t n, where ev = example_env]
  have 2: "on_message_to_plugin example_env unlinked_plugin example_conn example_msg =
       (example_conn\<lparr>seen_refs := [PStr ''abc123'']\<rparr>,
        [Invoke (PStr ''printer'') (PStr ''set_temperature'') [PInt 200],
         SendWsMsgToServer
           [(''passthru'', PDict [(''ref'', PStr ''abc123''), (''ret'', PList [PInt 200])])],
         Sleep, PostUpdateToServer], None)"
    by (simp add: v example_defs deque_append_def seen_refs_maxlen_def)
  from g h t n l u gu 1 2 show ?thesis by simp
qed

section \<open>The ledger is bounded\<close>

text \<open>
  A bounded deque that is not over its bound stays so, and after any appends holds the
  last elements appended.
\<close>

lemma deque_append_length:
  "length xs \<le> n \<Longrightarrow> length (deque_append n xs x) \<le> n"
  by (auto simp: deque_append_def Let_def)

lemma deque_append_set: "set (deque_append n xs x) \<subseteq> insert x (set xs)"
  by (cases xs) (auto simp: deque_append_def Let_def)

lemma tl_drop_snoc: "k \<le> length zs \<Longrightarrow> tl (drop k zs @ [y]) = drop (Suc k) (zs @ [y])"
proof (cases "k < length zs")
  case True
  then have "drop k zs \<noteq> []" by simp
  then have "tl (drop k zs @ [y]) = tl (drop k zs) @ [y]" by simp
  also have "\<dots> = drop (Suc k) zs @ [y]" by (simp add: drop_Suc tl_drop)
  finally show ?thesis using True by simp
next
  case False
  assume "k \<le> length zs"
  with False have "k = length zs" by simp
  then show ?thesis by simp
qed

lemma deque_append_full: "length zs = n \<Longrightarrow> deque_append n zs y = tl (zs @ [y])"
  by (simp add: deque_append_def Let_def)

lemma foldl_deque_append:
  "length xs \<le> n \<Longrightarrow>
   foldl (deque_append n) xs ys = drop (length xs + length ys - n) (xs @ ys)"
proof (induction ys rule: rev_induct)
  case Nil
  then show ?case by simp
next
  case (snoc y ys)
  let ?k = "length xs + length ys - n"
  have "foldl (deque_append n) xs (ys @ [y]) = deque_append n (drop ?k (xs @ ys)) y"
    using snoc by simp
  also have "\<dots> = drop (length xs + length (ys @ [y]) - n) (xs @ ys @ [y])"
  proof (cases "n \<le> length xs + length ys")
    case True
    then have "length (drop ?k (xs @ ys)) = n" by simp
    then have "deque_append n (drop ?k (xs @ ys)) y = tl (drop ?k (xs @ ys) @ [y])"
      by (rule deque_append_full)
    also have "\<dots> = drop (Suc ?k) ((xs @ ys) @ [y])"
      by (rule tl_drop_snoc) simp
    finally show ?thesis using True by (simp add: Suc_diff_le)
  next
    case False
    then show ?thesis by (simp add: deque_append_def Let_def)
  qed
  finally show ?case by simp
qed

lemma on_message_ledger_bound:
  assumes "length (seen_refs c) \<le> seen_refs_maxlen"
  shows "length (seen_refs (fst (on_message_to_plugin ev p c msg))) \<le> seen_refs_maxlen"
proof -
  obtain c' evs r where om: "on_message_to_plugin ev p c msg = (c', evs, r)"
    by (metis prod_cases3)
  have "length (seen_refs c') \<le> seen_refs_maxlen"
  proof (cases "passes_gates p msg")
    case False
    from blocked_at_gates [OF False, of ev c] om assms show ?thesis by auto
  next
    case True
    show ?thesis
    proof (cases "dict_get msg ''ref'' \<noteq> PNone \<and> py_in (dict_get msg ''ref'') (seen_refs c)")
      case True
      with duplicate_dropped [OF \<open>passes_gates p msg\<close>, of c ev] om assms show ?thesis by auto
    next
      case False
      then have "dict_get msg ''ref'' = PNone \<or> \<not> py_in (dict_get msg ''ref'') (seen_refs c)"
        by auto
      from fresh_handled [OF True this om] assms show ?thesis
        by (simp add: deque_append_length)
    qed
  qed
  with om show ?thesis by simp
qed

lemma deliver_ledger_bound:
  "length (seen_refs c) \<le> seen_refs_maxlen \<Longrightarrow>
   length (seen_refs (deliver c calls)) \<le> seen_refs_maxlen"
proof (induction calls arbitrary: c)
  case Nil
  then show ?case by simp
next
  case (Cons call calls)
  obtain ev p msg where call: "call = (ev, p, msg)" by (metis prod_cases3)
  from Cons.prems have "length (seen_refs (fst (on_message_to_plugin ev p c msg))) \<le> seen_refs_maxlen"
    by (rule on_message_ledger_bound)
  then show ?case using call Cons.IH by simp
qed

lemma py_in_deque_append:
  "py_in y (deque_append n xs x) \<Longrightarrow> py_eq x y \<or> py_in y xs"
  using deque_append_set [of n xs x] by (auto simp: py_in_iff)

lemma deliver_fresh:
  assumes "\<forall>call \<in> set calls. call_passes call"
    and "py_distinct (map call_ref calls)"
    and "\<forall>call \<in> set calls. \<not> py_in (call_ref call) (seen_refs c)"
  shows "seen_refs (deliver c calls) =
           foldl (deque_append seen_refs_maxlen) (seen_refs c) (map call_ref calls)"
  using assms
proof (induction calls arbitrary: c)
  case Nil
  then show ?case by simp
next
  case (Cons call calls)
  obtain ev p msg where call: "call = (ev, p, msg)" by (metis prod_cases3)
  let ?r = "dict_get msg ''ref''"
  obtain c' evs r where om: "on_message_to_plugin ev p c msg = (c', evs, r)"
    by (metis prod_cases3)
  from Cons.prems(1) call have pg: "passes_gates p msg" and nn: "?r \<noteq> PNone"
    by (auto simp: call_passes_def call_ref_def)
  from Cons.prems(3) call have fresh: "\<not> py_in ?r (seen_refs c)"
    by (auto simp: call_ref_def)
  from fresh_handled [OF pg _ om] fresh nn
  have led: "seen_refs c' = deque_append seen_refs_maxlen (seen_refs c) ?r" by simp
  have rest: "\<forall>call' \<in> set calls. \<not> py_in (call_ref call') (seen_refs c')"
  proof
    fix call' assume m: "call' \<in> set calls"
    show "\<not> py_in (call_ref call') (seen_refs c')"
    proof
      assume "py_in (call_ref call') (seen_refs c')"
      with led have "py_eq ?r (call_ref call') \<or> py_in (call_ref call') (seen_refs c)"
        by (auto dest: py_in_deque_append)
      moreover from Cons.prems(3) m have "\<not> py_in (call_ref call') (seen_refs c)" by simp
      moreover from Cons.prems(2) call m have "\<not> py_eq (call_ref call') ?r"
        by (auto simp: call_ref_def py_in_iff)
      ultimately show False using py_eq_sym by blast
    qed
  qed
  from Cons.prems have "seen_refs (deliver c' calls) =
      foldl (deque_append seen_refs_maxlen) (seen_refs c') (map call_ref calls)"
    using rest by (intro Cons.IH) auto
  moreover have "call_ref call = ?r" by (simp add: call call_ref_def)
  ultimately show ?case using om call led by simp
qed

lemma py_distinct_PInt: "distinct xs \<Longrightarrow> py_distinct (map PInt xs)"
  by (induction xs) (auto simp: py_in_iff)

lemma numbered_call_passes: "call_passes (example_env, example_plugin, numbered_msg i)"
  by (simp add: call_passes_def call_ref_def passes_gates_def numbered_msg_def
      check_printer_id_def resolve_def dict_get_def dict_item_def py_getattr_def
      py_getattr_default_def example_plugin_def)

lemma numbered_call_ref: "map call_ref numbered_calls = map PInt [1..26]"
  by (simp add: numbered_calls_def call_ref_def numbered_msg_def dict_get_def comp_def)

text \<open>
  C2. The ledger never holds more than 25 refs. Twenty-six envelopes arrive, each passing
  the gates, with refs that are pairwise different and not in the ledger, so that each is
  recorded: afterwards the ledger holds the refs of the last twenty-five, the ref of the
  first is no longer in it, and an envelope with that ref whose func resolves to an
  operation is invoked again.
\<close>

theorem ledger_evicts_oldest:
  assumes "length (seen_refs c) \<le> seen_refs_maxlen"
    and "length calls = 26"
    and "list_all call_passes calls"
    and "py_distinct (map call_ref calls)"
    and "list_all (\<lambda>call. \<not> py_in (call_ref call) (seen_refs c)) calls"
  shows "length (seen_refs (deliver c calls)) \<le> 25
       \<and> seen_refs (deliver c calls) = tl (map call_ref calls)
       \<and> \<not> py_in (call_ref (hd calls)) (seen_refs (deliver c calls))
       \<and> (check_printer_id p msg = None \<and> resolve p msg = Inr (Some (Callable h))
            \<and> unpack (dict_get_default msg ''args'' (PList [])) = Inr args
            \<and> dict_get msg ''ref'' = call_ref (hd calls) \<longrightarrow>
            filter is_invoke (fst (snd (on_message_to_plugin ev p (deliver c calls) msg))) =
              [Invoke (dict_get msg ''target'') (dict_get msg ''func'') args])"
proof -
  let ?refs = "map call_ref calls"
  let ?led = "seen_refs (deliver c calls)"
  from assms(2) obtain call rest where calls: "calls = call # rest" and rest: "length rest = 25"
    by (cases calls) auto
  have "?led = foldl (deque_append seen_refs_maxlen) (seen_refs c) ?refs"
    using assms(3-5) by (intro deliver_fresh) (simp_all add: list_all_iff)
  also have "\<dots> = drop (length (seen_refs c) + length ?refs - seen_refs_maxlen) (seen_refs c @ ?refs)"
    using assms(1) by (rule foldl_deque_append)
  also have "\<dots> = tl ?refs"
    using assms(2) calls rest by (simp add: seen_refs_maxlen_def)
  finally have led: "?led = tl ?refs" .
  have bound: "length ?led \<le> 25"
    using deliver_ledger_bound [OF assms(1), of calls] by (simp add: seen_refs_maxlen_def)
  have gone: "\<not> py_in (call_ref (hd calls)) ?led"
  proof
    assume "py_in (call_ref (hd calls)) ?led"
    with led calls obtain e where "e \<in> set (map call_ref rest)" "py_eq e (call_ref call)"
      by (auto simp: py_in_iff)
    with assms(4) calls show False by (auto simp: py_in_iff)
  qed
  have again: "filter is_invoke (fst (snd (on_message_to_plugin ev p (deliver c calls) msg))) =
              [Invoke (dict_get msg ''target'') (dict_get msg ''func'') args]"
    if "check_printer_id p msg = None" "resolve p msg = Inr (Some (Callable h))"
       "unpack (dict_get_default msg ''args'' (PList [])) = Inr args"
       "dict_get msg ''ref'' = call_ref (hd calls)"
  proof -
    obtain c' evs r where om: "on_message_to_plugin ev p (deliver c calls) msg = (c', evs, r)"
      by (metis prod_cases3)
    from gone that(4) have "\<not> py_in (dict_get msg ''ref'') ?led" by simp
    from invoked_once [OF that(1-3) _ om] this om show ?thesis by simp
  qed
  from bound led gone again show ?thesis by blast
qed

theorem ledger_evicts_oldest_witness:
  "length (seen_refs example_conn_after) \<le> seen_refs_maxlen
   \<and> length numbered_calls = 26
   \<and> list_all call_passes numbered_calls
   \<and> py_distinct (map call_ref numbered_calls)
   \<and> list_all (\<lambda>call. \<not> py_in (call_ref call) (seen_refs example_conn_after)) numbered_calls
   \<and> seen_refs example_conn_after = [PStr ''abc123'']
   \<and> seen_refs (deliver example_conn_after numbered_calls) = map PInt [2..26]
   \<and> \<not> py_in (PInt 1) (seen_refs (deliver example_conn_after numbered_calls))
   \<and> filter is_invoke
        (fst (snd (on_message_to_plugin example_env example_plugin
                     (deliver example_conn_after numbered_calls) (numbered_msg 1)))) =
       [Invoke (PStr ''printer'') (PStr ''set_temperature'') [PInt 200]]"
proof -
  have a: "length (seen_refs example_conn_after) \<le> seen_refs_maxlen"
    by (simp add: example_conn_after_def seen_refs_maxlen_def)
  have b: "length numbered_calls = 26"
    by (simp add: numbered_calls_def)
  have c: "list_all call_passes numbered_calls"
    by (simp add: numbered_calls_def list_all_iff numbered_call_passes)
  have d: "py_distinct (map call_ref numbered_calls)"
    unfolding numbered_call_ref by (rule py_distinct_PInt) simp
  have e: "list_all (\<lambda>call. \<not> py_in (call_ref call) (seen_refs example_conn_after))
             numbered_calls"
    by (simp add: numbered_calls_def list_all_iff call_ref_def numbered_msg_def dict_get_def
        py_in_def example_conn_after_def)
  have hd: "hd numbered_calls = (example_env, example_plugin, numbered_msg 1)"
    by (simp add: numbered_calls_def upto.simps)
  have tl: "tl (map PInt [1..26]) = map PInt [2..26]"
    by (simp add: upto.simps)
  have g: "check_printer_id example_plugin (numbered_msg 1) = None"
    "resolve example_plugin (numbered_msg 1) = Inr (Some (Callable set_temperature))"
    "unpack (dict_get_default (numbered_msg 1) ''args'' (PList [])) = Inr [PInt 200]"
    "dict_get (numbered_msg 1) ''ref'' = call_ref (hd numbered_calls)"
    by (simp_all add: hd call_ref_def numbered_msg_def check_printer_id_def resolve_def
        dict_get_def dict_item_def py_getattr_def py_getattr_default_def dict_get_default_def
        example_plugin_def)
  have t: "dict_get (numbered_msg 1) ''target'' = PStr ''printer''"
    "dict_get (numbered_msg 1) ''func'' = PStr ''set_temperature''"
    "call_ref (hd numbered_calls) = PInt 1"
    by (simp_all add: hd call_ref_def numbered_msg_def dict_get_def)
  from ledger_evicts_oldest
         [OF a b c d e, where p = example_plugin and msg = "numbered_msg 1"
            and h = set_temperature and args = "[PInt 200]" and ev = example_env]
    a b c d e g t numbered_call_ref tl
  show ?thesis by (simp add: example_conn_after_def py_in_def)
qed

end
